theory Spec2Isabelle
  imports Main "HOL-Library.Multiset"
begin

section \<open>The entity store\<close>

text \<open>
  The server of \<^verbatim>\<open>src/server/main.go\<close> keeps all its state in one SQLite database,
  created by \<^verbatim>\<open>initDB\<close> with three tables. The tables are modelled as lists of rows in
  insertion order, and every SQL statement the handlers execute is one function on the
  database value. What the statements do is read off the schema and the statement texts
  in the source:
  \<^item> \<^verbatim>\<open>players(id INTEGER PRIMARY KEY AUTOINCREMENT, name TEXT NOT NULL)\<close>;
  \<^item> \<^verbatim>\<open>games(id INTEGER PRIMARY KEY AUTOINCREMENT, max_points INTEGER NOT NULL)\<close>;
  \<^item> \<^verbatim>\<open>game_players(game_id, player_id, score INTEGER DEFAULT 0,
     PRIMARY KEY (player_id, game_id), FOREIGN KEY ... REFERENCES players(id),
     FOREIGN KEY ... REFERENCES games(id))\<close>.

  An INTEGER of the engine is a signed 64-bit number. The sum of two INTEGERs that leaves
  that range is not wrapped around: the engine stores a floating-point REAL instead. The
  model keeps the integers exact and writes \<open>SqlReal\<close> for a cell that has left the
  integer range; which floating-point number the cell then holds is not followed, and a
  cell that is \<open>SqlReal\<close> stays so in the model.

  Failures of the storage medium itself (I/O errors, a full disk, the exhaustion of the
  64-bit row identifiers) are outside the model.
\<close>

datatype sql_value = SqlInteger int | SqlReal

definition int64 :: "int \<Rightarrow> bool" where
  "int64 x \<longleftrightarrow> - (2 ^ 63) \<le> x \<and> x < 2 ^ 63"

text \<open>The expression \<^verbatim>\<open>score + ?\<close> of the UPDATE statement.\<close>

fun sql_add :: "sql_value \<Rightarrow> int \<Rightarrow> sql_value" where
  "sql_add (SqlInteger s) d = (if int64 (s + d) then SqlInteger (s + d) else SqlReal)"
| "sql_add SqlReal d = SqlReal"

record game_player_row =
  game_id :: int
  player_id :: int
  score :: sql_value

text \<open>
  The connection is opened by \<^verbatim>\<open>sql.Open("sqlite3", "./canastra.db")\<close>. The data source
  name carries no \<^verbatim>\<open>_foreign_keys\<close> option and no handler issues
  \<^verbatim>\<open>PRAGMA foreign_keys = ON\<close>, so the engine's foreign-key enforcement keeps its default,
  which is off: the FOREIGN KEY clauses of the schema are parsed and recorded but not
  checked. The field \<open>foreign_keys\<close> is that setting of the connection.
\<close>

record db =
  foreign_keys :: bool
  players :: "(int \<times> string) list"
  games :: "(int \<times> int) list"
  game_players :: "game_player_row list"

definition initDB :: db where
  "initDB = \<lparr>foreign_keys = False, players = [], games = [], game_players = []\<rparr>"

datatype sql_error =
    ConstraintPrimaryKey
  | ConstraintForeignKey
  | ErrNoRows
  | ScanConversion

text \<open>
  \<^verbatim>\<open>result.LastInsertId()\<close> after an INSERT: the new row's identifier is one more than the
  largest identifier of the table (rows are never deleted, so AUTOINCREMENT's stored
  sequence is that largest identifier).
\<close>

definition next_rowid :: "int list \<Rightarrow> int" where
  "next_rowid ids = fold max ids 0 + 1"

text \<open>\<^verbatim>\<open>INSERT INTO games (max_points) VALUES (?)\<close>\<close>

definition exec_insert_game :: "db \<Rightarrow> int \<Rightarrow> sql_error + (int \<times> db)" where
  "exec_insert_game d maxPoints =
     (let newId = next_rowid (map fst (games d))
      in Inr (newId, d\<lparr>games := games d @ [(newId, maxPoints)]\<rparr>))"

text \<open>\<^verbatim>\<open>INSERT INTO players (name) VALUES (?)\<close>\<close>

definition exec_insert_player :: "db \<Rightarrow> string \<Rightarrow> sql_error + (int \<times> db)" where
  "exec_insert_player d name =
     (let newId = next_rowid (map fst (players d))
      in Inr (newId, d\<lparr>players := players d @ [(newId, name)]\<rparr>))"

text \<open>
  \<^verbatim>\<open>INSERT INTO game_players (player_id, game_id) VALUES (?, ?)\<close>: the composite primary
  key is always checked, the foreign keys only when the connection enforces them. The
  new row takes the column default \<open>score = 0\<close>; the table has a hidden row identifier,
  which counts the rows since none is ever deleted.
\<close>

definition exec_insert_game_player :: "db \<Rightarrow> int \<Rightarrow> int \<Rightarrow> sql_error + (int \<times> db)" where
  "exec_insert_game_player d playerId gameId =
     (if \<exists>row \<in> set (game_players d). player_id row = playerId \<and> game_id row = gameId
      then Inl ConstraintPrimaryKey
      else if foreign_keys d \<and>
              (playerId \<notin> set (map fst (players d)) \<or> gameId \<notin> set (map fst (games d)))
      then Inl ConstraintForeignKey
      else Inr (int (length (game_players d)) + 1,
                d\<lparr>game_players := game_players d @
                     [\<lparr>game_id = gameId, player_id = playerId, score = SqlInteger 0\<rparr>]\<rparr>))"

text \<open>\<^verbatim>\<open>UPDATE game_players SET score = score + ? WHERE game_id = ? AND player_id = ?\<close>\<close>

definition exec_update_score :: "db \<Rightarrow> int \<Rightarrow> int \<Rightarrow> int \<Rightarrow> db" where
  "exec_update_score d delta gameId playerId =
     d\<lparr>game_players :=
         map (\<lambda>row. if game_id row = gameId \<and> player_id row = playerId
                     then row\<lparr>score := sql_add (score row) delta\<rparr> else row)
             (game_players d)\<rparr>"

text \<open>
  \<^verbatim>\<open>SELECT score FROM game_players WHERE game_id = ? AND player_id = ?\<close> through
  \<^verbatim>\<open>QueryRow\<close> and \<^verbatim>\<open>row.Scan(&gamePlayer.Score)\<close>: no row gives \<^verbatim>\<open>sql.ErrNoRows\<close>, and a
  REAL cell cannot be converted into the Go \<^verbatim>\<open>int\<close> field.
\<close>

definition query_row_score :: "db \<Rightarrow> int \<Rightarrow> int \<Rightarrow> sql_error + int" where
  "query_row_score d gameId playerId =
     (case filter (\<lambda>row. game_id row = gameId \<and> player_id row = playerId) (game_players d) of
        [] \<Rightarrow> Inl ErrNoRows
      | row # _ \<Rightarrow> (case score row of SqlInteger s \<Rightarrow> Inr s | SqlReal \<Rightarrow> Inl ScanConversion))"

text \<open>
  \<^verbatim>\<open>SELECT game_id, player_id, score FROM game_players WHERE game_id = ?\<close>. The handler
  binds the raw text of the query parameter \<^verbatim>\<open>game_id\<close>; the engine compares it with the
  INTEGER column after its own numeric coercion of the text. That coercion is the
  parameter \<open>num\<close>: the integer the text stands for, if any.
\<close>

definition query_game_players :: "(string \<Rightarrow> int option) \<Rightarrow> db \<Rightarrow> string \<Rightarrow> game_player_row list" where
  "query_game_players num d ident = filter (\<lambda>row. num ident = Some (game_id row)) (game_players d)"

section \<open>Requests and responses\<close>

record GamePlayer =
  PlayerId :: int
  GameId :: int
  Score :: int

text \<open>
  The JSON bodies the handlers write: the struct \<^verbatim>\<open>Response\<close> and the anonymous structs
  named after the handlers' variables.
\<close>

datatype json_body =
    NoBody
  | Response string bool
  | GameCreatedResponse int string bool
  | GameResponse "GamePlayer list"
  | GameUpdatedResponse int string bool
  | GamePlayersCreatedResponse int string bool
  | UserCreatedResponse int string bool

record response =
  status :: int
  body :: json_body

text \<open>
  A response is what a handler writes: the status and the JSON body. A request is its
  method (a string, as \<^verbatim>\<open>r.Method\<close> is) and what the handler reads from it. For a handler that decodes a JSON body, \<open>req_data\<close> is the result of
  \<^verbatim>\<open>json.NewDecoder(r.Body).Decode(&requestData)\<close>: \<open>None\<close> when the decoder returns an
  error, the decoded struct otherwise. The decoder fills a Go \<^verbatim>\<open>int\<close> only from a
  number within the signed 64-bit range.
\<close>

record 'a request =
  req_method :: string
  req_data :: 'a

record update_score_data =
  us_GameId :: int
  us_PlayerId :: int
  us_Score :: int

record add_game_player_data =
  gp_PlayerId :: int
  gp_GameId :: int

definition respondWithError :: "int \<Rightarrow> response" where
  "respondWithError statusCode =
     \<lparr>status = statusCode, body = Response ''internal_server_error'' False\<rparr>"

definition method_not_allowed :: response where
  "method_not_allowed = \<lparr>status = 405, body = Response ''method_not_allowed'' False\<rparr>"

definition invalid_json :: response where
  "invalid_json = \<lparr>status = 400, body = Response ''invalid_json'' False\<rparr>"

section \<open>The handlers\<close>

text \<open>Route \<^verbatim>\<open>/\<close> of \<^verbatim>\<open>src/server/main.go\<close>.\<close>

definition handle_root :: "db \<Rightarrow> 'a request \<Rightarrow> response \<times> db" where
  "handle_root d r = (\<lparr>status = 200, body = Response ''all good'' True\<rparr>, d)"

text \<open>Route \<^verbatim>\<open>/\<close> of the older program \<^verbatim>\<open>src/main.go\<close>.\<close>

definition main_handle_root :: "db \<Rightarrow> 'a request \<Rightarrow> response \<times> db" where
  "main_handle_root d r = (\<lparr>status = 201, body = Response ''Player created'' True\<rparr>, d)"

text \<open>Route \<^verbatim>\<open>/games/new\<close>.\<close>

definition handle_games_new :: "db \<Rightarrow> int option request \<Rightarrow> response \<times> db" where
  "handle_games_new d r =
     (if req_method r \<noteq> ''POST'' then (method_not_allowed, d)
      else case req_data r of
        None \<Rightarrow> (invalid_json, d)
      | Some maxPoints \<Rightarrow>
          (case exec_insert_game d maxPoints of
             Inl err \<Rightarrow> (respondWithError 500, d)
           | Inr (newId, d') \<Rightarrow>
               (\<lparr>status = 201, body = GameCreatedResponse newId ''game_created'' True\<rparr>, d')))"

text \<open>The loop \<^verbatim>\<open>for rows.Next() { ... rows.Scan(...) ... append }\<close> of route \<^verbatim>\<open>/games\<close>.\<close>

fun scan_rows :: "game_player_row list \<Rightarrow> GamePlayer list \<Rightarrow> sql_error + GamePlayer list" where
  "scan_rows [] gamePlayers = Inr gamePlayers"
| "scan_rows (row # rows) gamePlayers =
     (case score row of
        SqlReal \<Rightarrow> Inl ScanConversion
      | SqlInteger s \<Rightarrow>
          scan_rows rows
            (gamePlayers @ [\<lparr>PlayerId = player_id row, GameId = game_id row, Score = s\<rparr>]))"

text \<open>Route \<^verbatim>\<open>/games\<close>; \<open>req_data\<close> is the text of the query parameter \<^verbatim>\<open>game_id\<close>.\<close>

definition handle_games :: "(string \<Rightarrow> int option) \<Rightarrow> db \<Rightarrow> string request \<Rightarrow> response \<times> db" where
  "handle_games num d r =
     (if req_method r \<noteq> ''GET'' then (method_not_allowed, d)
      else case scan_rows (query_game_players num d (req_data r)) [] of
        Inl err \<Rightarrow> (respondWithError 500, d)
      | Inr gamePlayers \<Rightarrow> (\<lparr>status = 201, body = GameResponse gamePlayers\<rparr>, d))"

text \<open>Route \<^verbatim>\<open>/games/update-score\<close>. The UPDATE is executed before the score is read back,
  so the state it leaves is kept also when the read fails.\<close>

definition handle_games_update_score ::
  "db \<Rightarrow> update_score_data option request \<Rightarrow> response \<times> db" where
  "handle_games_update_score d r =
     (if req_method r \<noteq> ''PUT'' then (method_not_allowed, d)
      else case req_data r of
        None \<Rightarrow> (invalid_json, d)
      | Some requestData \<Rightarrow>
          (let d' = exec_update_score d (us_Score requestData) (us_GameId requestData)
                      (us_PlayerId requestData)
           in case query_row_score d' (us_GameId requestData) (us_PlayerId requestData) of
                Inl err \<Rightarrow> (respondWithError 500, d')
              | Inr newScore \<Rightarrow>
                  (\<lparr>status = 201, body = GameUpdatedResponse newScore ''game_updated'' True\<rparr>, d')))"

text \<open>Route \<^verbatim>\<open>/games/players/add\<close>.\<close>

definition handle_games_players_add ::
  "db \<Rightarrow> add_game_player_data option request \<Rightarrow> response \<times> db" where
  "handle_games_players_add d r =
     (if req_method r \<noteq> ''POST'' then (method_not_allowed, d)
      else case req_data r of
        None \<Rightarrow> (invalid_json, d)
      | Some requestData \<Rightarrow>
          (case exec_insert_game_player d (gp_PlayerId requestData) (gp_GameId requestData) of
             Inl err \<Rightarrow> (respondWithError 500, d)
           | Inr (newId, d') \<Rightarrow>
               (\<lparr>status = 201,
                 body = GamePlayersCreatedResponse newId ''game_player_created'' True\<rparr>, d')))"

text \<open>Route \<^verbatim>\<open>/players/add\<close>.\<close>

definition handle_players_add :: "db \<Rightarrow> string option request \<Rightarrow> response \<times> db" where
  "handle_players_add d r =
     (if req_method r \<noteq> ''POST'' then (method_not_allowed, d)
      else case req_data r of
        None \<Rightarrow> (invalid_json, d)
      | Some name \<Rightarrow>
          (if name = '''' then
             (\<lparr>status = 400, body = Response ''validation_error: name can't be blank'' False\<rparr>, d)
           else case exec_insert_player d name of
             Inl err \<Rightarrow> (respondWithError 500, d)
           | Inr (newId, d') \<Rightarrow>
               (\<lparr>status = 201, body = UserCreatedResponse newId ''user_created'' True\<rparr>, d')))"

section \<open>The middlewares\<close>

text \<open>
  \<^verbatim>\<open>corsMiddleware\<close> answers an OPTIONS request itself, with status 200 and no body, and
  hands every other request on. \<^verbatim>\<open>logRequest\<close> writes a log line and hands the request on.
  \<^verbatim>\<open>serverMiddlewares\<close> wraps the handler in each middleware in turn. Response headers
  and the log file are not part of the model.
\<close>

definition corsMiddleware ::
  "(db \<Rightarrow> 'a request \<Rightarrow> response \<times> db) \<Rightarrow> db \<Rightarrow> 'a request \<Rightarrow> response \<times> db" where
  "corsMiddleware next d r =
     (if req_method r = ''OPTIONS'' then (\<lparr>status = 200, body = NoBody\<rparr>, d) else next d r)"

definition logRequest ::
  "(db \<Rightarrow> 'a request \<Rightarrow> response \<times> db) \<Rightarrow> db \<Rightarrow> 'a request \<Rightarrow> response \<times> db" where
  "logRequest handler d r = handler d r"

fun serverMiddlewares ::
  "(db \<Rightarrow> 'a request \<Rightarrow> response \<times> db) \<Rightarrow>
   ((db \<Rightarrow> 'a request \<Rightarrow> response \<times> db) \<Rightarrow> db \<Rightarrow> 'a request \<Rightarrow> response \<times> db) list \<Rightarrow>
   db \<Rightarrow> 'a request \<Rightarrow> response \<times> db" where
  "serverMiddlewares handler [] = handler"
| "serverMiddlewares handler (middleware # middlewares) =
     serverMiddlewares (middleware handler) middlewares"

text \<open>The server's handler chain \<^verbatim>\<open>serverMiddlewares(mux, corsMiddleware, logRequest)\<close>,
  for one route of the multiplexer.\<close>

definition served ::
  "(db \<Rightarrow> 'a request \<Rightarrow> response \<times> db) \<Rightarrow> db \<Rightarrow> 'a request \<Rightarrow> response \<times> db" where
  "served route = serverMiddlewares route [corsMiddleware, logRequest]"

section \<open>The operations as requests\<close>

text \<open>
  Each operation of the score ledger is the request a client sends for it: the route's
  handler, called with the route's method and a body that decodes to the operation's
  arguments.
\<close>

definition RegisterPlayer :: "db \<Rightarrow> string \<Rightarrow> response \<times> db" where
  "RegisterPlayer d name = handle_players_add d \<lparr>req_method = ''POST'', req_data = Some name\<rparr>"

definition CreateGame :: "db \<Rightarrow> int \<Rightarrow> response \<times> db" where
  "CreateGame d scoreCeiling =
     handle_games_new d \<lparr>req_method = ''POST'', req_data = Some scoreCeiling\<rparr>"

definition AttachPlayer :: "db \<Rightarrow> int \<Rightarrow> int \<Rightarrow> response \<times> db" where
  "AttachPlayer d gameId playerId =
     handle_games_players_add d
       \<lparr>req_method = ''POST'',
        req_data = Some \<lparr>gp_PlayerId = playerId, gp_GameId = gameId\<rparr>\<rparr>"

definition ApplyScoreDelta :: "db \<Rightarrow> int \<Rightarrow> int \<Rightarrow> int \<Rightarrow> response \<times> db" where
  "ApplyScoreDelta d gameId playerId delta =
     handle_games_update_score d
       \<lparr>req_method = ''PUT'',
        req_data = Some \<lparr>us_GameId = gameId, us_PlayerId = playerId, us_Score = delta\<rparr>\<rparr>"

definition ListScores :: "(string \<Rightarrow> int option) \<Rightarrow> db \<Rightarrow> string \<Rightarrow> response \<times> db" where
  "ListScores num d ident = handle_games num d \<lparr>req_method = ''GET'', req_data = ident\<rparr>"

text \<open>A sequence of deltas sent one after the other for the same pair.\<close>

fun apply_deltas :: "db \<Rightarrow> int \<Rightarrow> int \<Rightarrow> int list \<Rightarrow> db" where
  "apply_deltas d gameId playerId [] = d"
| "apply_deltas d gameId playerId (delta # deltas) =
     apply_deltas (snd (ApplyScoreDelta d gameId playerId delta)) gameId playerId deltas"

section \<open>Notions the properties are stated with\<close>

text \<open>The row of a pair, if the pair is attached, and the score cell it holds.\<close>

definition attached :: "db \<Rightarrow> int \<Rightarrow> int \<Rightarrow> bool" where
  "attached d gameId playerId \<longleftrightarrow>
     list_ex (\<lambda>row. game_id row = gameId \<and> player_id row = playerId) (game_players d)"

definition stored_score :: "db \<Rightarrow> int \<Rightarrow> int \<Rightarrow> sql_value option" where
  "stored_score d gameId playerId =
     map_option score
       (find (\<lambda>row. game_id row = gameId \<and> player_id row = playerId) (game_players d))"

text \<open>The composite key of a row, and the invariant of the primary key.\<close>

definition pair_key :: "game_player_row \<Rightarrow> int \<times> int" where
  "pair_key row = (player_id row, game_id row)"

definition unique_pairs :: "db \<Rightarrow> bool" where
  "unique_pairs d \<longleftrightarrow> distinct (map pair_key (game_players d))"

text \<open>Every running total of the deltas, starting from \<open>s\<close>, is a signed 64-bit number.\<close>

fun totals_in_range :: "int \<Rightarrow> int list \<Rightarrow> bool" where
  "totals_in_range s [] = True"
| "totals_in_range s (delta # deltas) = (int64 (s + delta) \<and> totals_in_range (s + delta) deltas)"

text \<open>No selected row of the game holds a score that has left the integer range.\<close>

definition integer_scores :: "game_player_row list \<Rightarrow> bool" where
  "integer_scores rows = list_all (\<lambda>row. score row \<noteq> SqlReal) rows"

text \<open>
  The word \<^emph>\<open>blank\<close> of the specification, as distinct from \<^emph>\<open>empty\<close>: a name made of
  white space only. The handler itself compares the name with the empty string.
\<close>

definition blank :: "string \<Rightarrow> bool" where
  "blank name = list_all (\<lambda>c. c \<in> {CHR '' '', CHR 0x09, CHR 0x0A, CHR 0x0D}) name"

text \<open>
  The states the server can be in: the freshly initialised database, and whatever a
  request to one of its routes leaves, each route behind the middleware chain.
\<close>

inductive reachable :: "db \<Rightarrow> bool" where
  reach_init: "reachable initDB"
| reach_root: "reachable d \<Longrightarrow> reachable (snd (served handle_root d (r0 :: string request)))"
| reach_games_new: "reachable d \<Longrightarrow> reachable (snd (served handle_games_new d r1))"
| reach_games: "reachable d \<Longrightarrow> reachable (snd (served (handle_games num) d r2))"
| reach_update_score: "reachable d \<Longrightarrow> reachable (snd (served handle_games_update_score d r3))"
| reach_games_players_add: "reachable d \<Longrightarrow> reachable (snd (served handle_games_players_add d r4))"
| reach_players_add: "reachable d \<Longrightarrow> reachable (snd (served handle_players_add d r5))"

text \<open>The text-to-number coercion at the one text the examples use.\<close>

definition num_one :: "string \<Rightarrow> int option" where
  "num_one ident = (if ident = ''1'' then Some 1 else None)"

text \<open>
  Two states built by requests from the fresh database, both with game 1 and players 1
  and 2 attached: in \<open>scenario\<close> player 1 has received 120 and 30 points; in
  \<open>overflowed\<close> player 2 has received the largest 64-bit integer and then one more point.
\<close>

definition scenario :: db where
  "scenario = apply_deltas (snd (AttachPlayer (snd (AttachPlayer initDB 1 1)) 1 2)) 1 1 [120, 30]"

definition overflowed :: db where
  "overflowed = apply_deltas (snd (AttachPlayer (snd (AttachPlayer initDB 1 1)) 1 2)) 1 2
                  [9223372036854775807, 1]"

section \<open>Facts about the store and the handlers\<close>

lemma served_eq:
  "served h d r =
     (if req_method r = ''OPTIONS'' then (\<lparr>status = 200, body = NoBody\<rparr>, d) else h d r)"
  by (simp add: served_def logRequest_def corsMiddleware_def)

lemma served_state: "snd (served h d r) = d \<or> snd (served h d r) = snd (h d r)"
  by (simp add: served_eq)

lemma older_program_root:
  "main_handle_root d r = (\<lparr>status = 201, body = Response ''Player created'' True\<rparr>, d)"
  by (simp add: main_handle_root_def)

subsection \<open>Fresh identifiers\<close>

lemma fold_max_ge: "(a::int) \<le> fold max xs a"
  by (induction xs arbitrary: a) (auto intro: order_trans[OF max.cobounded2])

lemma fold_max_upper: "x \<in> set xs \<Longrightarrow> (x::int) \<le> fold max xs a"
proof (induction xs arbitrary: a)
  case Nil
  then show ?case by simp
next
  case (Cons y ys)
  show ?case
  proof (cases "x = y")
    case True
    have "y \<le> max y a" by simp
    also have "\<dots> \<le> fold max ys (max y a)" by (rule fold_max_ge)
    finally show ?thesis using True by simp
  next
    case False
    with Cons show ?thesis by simp
  qed
qed

lemma next_rowid_fresh: "next_rowid ids \<notin> set ids"
proof
  assume "next_rowid ids \<in> set ids"
  then have "next_rowid ids \<le> fold max ids 0" by (rule fold_max_upper)
  then show False by (simp add: next_rowid_def)
qed

subsection \<open>The UPDATE and the read that follows it\<close>

lemma update_no_match:
  assumes "\<not> attached d g p"
  shows "exec_update_score d delta g p = d"
proof -
  from assms have "\<forall>row \<in> set (game_players d). \<not> (game_id row = g \<and> player_id row = p)"
    by (simp add: attached_def list_ex_iff)
  then have "map (\<lambda>row. if game_id row = g \<and> player_id row = p
                     then row\<lparr>score := sql_add (score row) delta\<rparr> else row) (game_players d)
             = game_players d"
    by (intro map_idI) auto
  then show ?thesis by (simp add: exec_update_score_def)
qed

lemma query_no_match:
  "\<not> attached d g p \<Longrightarrow> query_row_score d g p = Inl ErrNoRows"
  by (simp add: attached_def list_ex_iff query_row_score_def filter_empty_conv[THEN iffD2])

lemma snd_ApplyScoreDelta:
  "snd (ApplyScoreDelta d g p delta) = exec_update_score d delta g p"
  by (simp add: ApplyScoreDelta_def handle_games_update_score_def Let_def split: sum.splits)

lemma find_map_update:
  "find (\<lambda>row. game_id row = g \<and> player_id row = p)
     (map (\<lambda>row. if game_id row = g \<and> player_id row = p
                  then row\<lparr>score := sql_add (score row) delta\<rparr> else row) rows)
   = map_option (\<lambda>row. row\<lparr>score := sql_add (score row) delta\<rparr>)
       (find (\<lambda>row. game_id row = g \<and> player_id row = p) rows)"
  by (induction rows) auto

lemma stored_score_update:
  "stored_score (exec_update_score d delta g p) g p =
     map_option (\<lambda>v. sql_add v delta) (stored_score d g p)"
  by (simp add: stored_score_def exec_update_score_def find_map_update option.map_comp comp_def)

lemma filter_find_case:
  "(case filter P rows of [] \<Rightarrow> a | row # _ \<Rightarrow> f row) =
   (case find P rows of None \<Rightarrow> a | Some row \<Rightarrow> f row)"
  by (induction rows) auto

lemma query_row_score_stored:
  "query_row_score d g p =
     (case stored_score d g p of
        None \<Rightarrow> Inl ErrNoRows
      | Some (SqlInteger s) \<Rightarrow> Inr s
      | Some SqlReal \<Rightarrow> Inl ScanConversion)"
proof -
  let ?P = "\<lambda>row. game_id row = g \<and> player_id row = p"
  have "query_row_score d g p =
      (case find ?P (game_players d) of
         None \<Rightarrow> Inl ErrNoRows
       | Some row \<Rightarrow> (case score row of SqlInteger s \<Rightarrow> Inr s | SqlReal \<Rightarrow> Inl ScanConversion))"
    unfolding query_row_score_def by (rule filter_find_case)
  then show ?thesis
    by (cases "find ?P (game_players d)") (simp_all add: stored_score_def)
qed

lemma stored_score_row:
  "stored_score d g p = Some v \<Longrightarrow>
     \<exists>row \<in> set (game_players d). game_id row = g \<and> player_id row = p \<and> score row = v"
  by (auto simp: stored_score_def find_Some_iff)

lemma stored_score_apply_deltas:
  "stored_score d g p = Some (SqlInteger s) \<Longrightarrow> totals_in_range s ds \<Longrightarrow>
     stored_score (apply_deltas d g p ds) g p = Some (SqlInteger (s + sum_list ds))"
proof (induction ds arbitrary: d s)
  case Nil
  then show ?case by simp
next
  case (Cons x xs)
  have "stored_score (snd (ApplyScoreDelta d g p x)) g p = Some (SqlInteger (s + x))"
    using Cons.prems by (simp add: snd_ApplyScoreDelta stored_score_update)
  moreover have "totals_in_range (s + x) xs" using Cons.prems by simp
  ultimately have "stored_score (apply_deltas (snd (ApplyScoreDelta d g p x)) g p xs) g p
      = Some (SqlInteger (s + x + sum_list xs))"
    by (rule Cons.IH)
  then show ?case by (simp add: add.assoc)
qed

lemma sum_list_mset_eq: "mset xs = mset ys \<Longrightarrow> sum_list xs = (sum_list ys :: int)"
  by (metis sum_mset_sum_list)

lemma ApplyScoreDelta_success:
  assumes "stored_score d g p = Some (SqlInteger s)"
    and "ApplyScoreDelta d g p delta = (resp, d')"
    and "status resp = 201"
  shows "resp = \<lparr>status = 201, body = GameUpdatedResponse (s + delta) ''game_updated'' True\<rparr>"
    and "stored_score d' g p = Some (SqlInteger (s + delta))"
    and "d' = exec_update_score d delta g p"
proof -
  show d': "d' = exec_update_score d delta g p"
    using assms(2) snd_ApplyScoreDelta [of d g p delta] by simp
  have st: "stored_score d' g p = Some (sql_add (SqlInteger s) delta)"
    using assms(1) by (simp add: d' stored_score_update)
  have r: "resp = (case sql_add (SqlInteger s) delta of
                     SqlInteger n \<Rightarrow> \<lparr>status = 201, body = GameUpdatedResponse n ''game_updated'' True\<rparr>
                   | SqlReal \<Rightarrow> respondWithError 500)"
    using assms(2) st d'
    by (auto simp: ApplyScoreDelta_def handle_games_update_score_def Let_def
        query_row_score_stored split: sql_value.splits)
  from r assms(3) have i: "int64 (s + delta)"
    by (auto simp: respondWithError_def split: if_splits)
  from r i show "resp = \<lparr>status = 201, body = GameUpdatedResponse (s + delta) ''game_updated'' True\<rparr>"
    by simp
  from st i show "stored_score d' g p = Some (SqlInteger (s + delta))" by simp
qed

subsection \<open>The scan loop\<close>

lemma scan_rows_integer:
  "integer_scores rows \<Longrightarrow>
     \<exists>gps. scan_rows rows acc = Inr (acc @ gps) \<and>
           map (\<lambda>e. (GameId e, PlayerId e, SqlInteger (Score e))) gps =
             map (\<lambda>row. (game_id row, player_id row, score row)) rows"
proof (induction rows arbitrary: acc)
  case Nil
  then show ?case by simp
next
  case (Cons row rows)
  from Cons.prems obtain s where s: "score row = SqlInteger s" and rest: "integer_scores rows"
    by (cases "score row") (auto simp: integer_scores_def)
  let ?e = "\<lparr>PlayerId = player_id row, GameId = game_id row, Score = s\<rparr>"
  from Cons.IH [OF rest, of "acc @ [?e]"] obtain gps where
    g: "scan_rows rows (acc @ [?e]) = Inr ((acc @ [?e]) @ gps)"
       "map (\<lambda>e. (GameId e, PlayerId e, SqlInteger (Score e))) gps =
          map (\<lambda>row. (game_id row, player_id row, score row)) rows"
    by blast
  have "scan_rows (row # rows) acc = Inr (acc @ (?e # gps))" using s g(1) by simp
  moreover have "map (\<lambda>e. (GameId e, PlayerId e, SqlInteger (Score e))) (?e # gps) =
      map (\<lambda>row. (game_id row, player_id row, score row)) (row # rows)"
    using s g(2) by simp
  ultimately show ?case by blast
qed

lemma scan_rows_real:
  "\<not> integer_scores rows \<Longrightarrow> scan_rows rows acc = Inl ScanConversion"
proof (induction rows arbitrary: acc)
  case Nil
  then show ?case by (simp add: integer_scores_def)
next
  case (Cons row rows)
  then show ?case by (cases "score row") (auto simp: integer_scores_def)
qed

lemma ListScores_integer:
  assumes "integer_scores (query_game_players num d ident)"
  shows "\<exists>gps. ListScores num d ident = (\<lparr>status = 201, body = GameResponse gps\<rparr>, d) \<and>
           map (\<lambda>e. (GameId e, PlayerId e, SqlInteger (Score e))) gps =
             map (\<lambda>row. (game_id row, player_id row, score row)) (query_game_players num d ident)"
  using scan_rows_integer [OF assms, of "[]"]
  by (auto simp: ListScores_def handle_games_def)

lemma ListScores_real:
  "\<not> integer_scores (query_game_players num d ident) \<Longrightarrow>
     ListScores num d ident = (respondWithError 500, d)"
  by (simp add: ListScores_def handle_games_def scan_rows_real)

subsection \<open>The primary key and the connection setting are invariants\<close>

lemma pair_keys_update:
  "map pair_key (game_players (exec_update_score d delta g p)) = map pair_key (game_players d)"
  by (simp add: exec_update_score_def pair_key_def comp_def)

lemma unique_pairs_games_new: "unique_pairs (snd (handle_games_new d r)) = unique_pairs d"
  by (simp add: handle_games_new_def exec_insert_game_def unique_pairs_def Let_def
      split: option.splits)

lemma unique_pairs_players_add: "unique_pairs (snd (handle_players_add d r)) = unique_pairs d"
  by (simp add: handle_players_add_def exec_insert_player_def unique_pairs_def Let_def
      split: option.splits)

lemma state_games: "snd (handle_games num d r) = d"
  by (simp add: handle_games_def split: sum.splits)

lemma unique_pairs_update_score:
  "unique_pairs (snd (handle_games_update_score d r)) = unique_pairs d"
  by (simp add: handle_games_update_score_def unique_pairs_def pair_keys_update Let_def
      split: option.splits sum.splits)

lemma unique_pairs_insert:
  "unique_pairs d \<Longrightarrow> exec_insert_game_player d p g = Inr (n, d') \<Longrightarrow> unique_pairs d'"
  by (auto simp: exec_insert_game_player_def unique_pairs_def pair_key_def split: if_splits)

lemma unique_pairs_games_players_add:
  "unique_pairs d \<Longrightarrow> unique_pairs (snd (handle_games_players_add d r))"
  by (auto simp: handle_games_players_add_def split: option.splits sum.splits
      dest: unique_pairs_insert)

lemma reachable_unique_pairs: "reachable d \<Longrightarrow> unique_pairs d"
proof (induction rule: reachable.induct)
  case reach_init
  show ?case by (simp add: unique_pairs_def initDB_def)
next
  case (reach_root d r0)
  then show ?case by (simp add: served_eq handle_root_def)
next
  case (reach_games_new d r1)
  then show ?case using served_state [of handle_games_new d r1]
    by (auto simp: unique_pairs_games_new)
next
  case (reach_games d num r2)
  then show ?case using served_state [of "handle_games num" d r2]
    by (auto simp: state_games)
next
  case (reach_update_score d r3)
  then show ?case using served_state [of handle_games_update_score d r3]
    by (auto simp: unique_pairs_update_score)
next
  case (reach_games_players_add d r4)
  then show ?case using served_state [of handle_games_players_add d r4]
    by (auto simp: unique_pairs_games_players_add)
next
  case (reach_players_add d r5)
  then show ?case using served_state [of handle_players_add d r5]
    by (auto simp: unique_pairs_players_add)
qed

lemma reachable_foreign_keys_off: "reachable d \<Longrightarrow> \<not> foreign_keys d"
proof (induction rule: reachable.induct)
  case reach_init
  show ?case by (simp add: initDB_def)
next
  case (reach_root d r0)
  then show ?case by (simp add: served_eq handle_root_def)
next
  case (reach_games_new d r1)
  then show ?case
    by (simp add: served_eq handle_games_new_def exec_insert_game_def Let_def split: option.splits)
next
  case (reach_games d num r2)
  then show ?case by (simp add: served_eq state_games)
next
  case (reach_update_score d r3)
  then show ?case
    by (simp add: served_eq handle_games_update_score_def exec_update_score_def Let_def
        split: option.splits sum.splits)
next
  case (reach_games_players_add d r4)
  then show ?case
    by (auto simp: served_eq handle_games_players_add_def exec_insert_game_player_def
        split: option.splits sum.splits if_splits)
next
  case (reach_players_add d r5)
  then show ?case
    by (simp add: served_eq handle_players_add_def exec_insert_player_def Let_def
        split: option.splits)
qed

lemma unique_pairs_same_row:
  assumes "unique_pairs d" and "r1 \<in> set (game_players d)" and "r2 \<in> set (game_players d)"
    and "game_id r1 = game_id r2" and "player_id r1 = player_id r2"
  shows "r1 = r2"
proof -
  from assms(1) have "inj_on pair_key (set (game_players d))"
    by (simp add: unique_pairs_def distinct_map)
  moreover have "pair_key r1 = pair_key r2" using assms(4,5) by (simp add: pair_key_def)
  ultimately show ?thesis using assms(2,3) by (auto dest: inj_onD)
qed

lemma reachable_AttachPlayer: "reachable d \<Longrightarrow> reachable (snd (AttachPlayer d g p))"
  using reach_games_players_add
    [of d "\<lparr>req_method = ''POST'', req_data = Some \<lparr>gp_PlayerId = p, gp_GameId = g\<rparr>\<rparr>"]
  by (simp add: served_eq AttachPlayer_def)

lemma reachable_ApplyScoreDelta: "reachable d \<Longrightarrow> reachable (snd (ApplyScoreDelta d g p delta))"
  using reach_update_score
    [of d "\<lparr>req_method = ''PUT'',
            req_data = Some \<lparr>us_GameId = g, us_PlayerId = p, us_Score = delta\<rparr>\<rparr>"]
  by (simp add: served_eq ApplyScoreDelta_def)

lemma reachable_apply_deltas: "reachable d \<Longrightarrow> reachable (apply_deltas d g p ds)"
  by (induction ds arbitrary: d) (auto intro: reachable_ApplyScoreDelta)

subsection \<open>The example states\<close>

lemma attach_fresh:
  "AttachPlayer initDB 1 1 =
     (\<lparr>status = 201, body = GamePlayersCreatedResponse 1 ''game_player_created'' True\<rparr>,
      initDB\<lparr>game_players := [\<lparr>game_id = 1, player_id = 1, score = SqlInteger 0\<rparr>]\<rparr>)"
  by (simp add: AttachPlayer_def handle_games_players_add_def exec_insert_game_player_def
      initDB_def)

lemma attach_fresh_state:
  "snd (AttachPlayer initDB 1 1) =
     \<lparr>foreign_keys = False, players = [], games = [],
      game_players = [\<lparr>game_id = 1, player_id = 1, score = SqlInteger 0\<rparr>]\<rparr>"
  by (simp add: attach_fresh) (simp add: initDB_def)

lemma attach_fresh_score:
  "stored_score (snd (AttachPlayer initDB 1 1)) 1 1 = Some (SqlInteger 0)"
  by (simp add: attach_fresh stored_score_def)

lemma scenario_value:
  "scenario = \<lparr>foreign_keys = False, players = [], games = [],
      game_players = [\<lparr>game_id = 1, player_id = 1, score = SqlInteger 150\<rparr>,
                      \<lparr>game_id = 1, player_id = 2, score = SqlInteger 0\<rparr>]\<rparr>"
  by (simp add: scenario_def snd_ApplyScoreDelta AttachPlayer_def handle_games_players_add_def
      exec_insert_game_player_def initDB_def exec_update_score_def int64_def)

lemma overflowed_value:
  "overflowed = \<lparr>foreign_keys = False, players = [], games = [],
      game_players = [\<lparr>game_id = 1, player_id = 1, score = SqlInteger 0\<rparr>,
                      \<lparr>game_id = 1, player_id = 2, score = SqlReal\<rparr>]\<rparr>"
  by (simp add: overflowed_def snd_ApplyScoreDelta AttachPlayer_def handle_games_players_add_def
      exec_insert_game_player_def initDB_def exec_update_score_def int64_def)

lemma reachable_overflowed: "reachable overflowed"
  unfolding overflowed_def
  by (intro reachable_apply_deltas reachable_AttachPlayer reach_init)

section \<open>The properties\<close>

subsection \<open>Attaching a player\<close>

text \<open>
  Claim C1: an AttachPlayer whose game or player does not exist fails with a referential
  error and inserts no row. The server does not do this. In the fresh database there is
  no game and no player, and the request to attach player 1 to game 1 is answered with
  201 \<open>game_player_created\<close> and leaves the row \<open>(1, 1, 0)\<close> in the table: the schema
  declares the foreign keys, but the connection never switches their enforcement on.
\<close>

theorem attach_without_referents_creates_row:
  "players initDB = [] \<and> games initDB = [] \<and>
   AttachPlayer initDB 1 1 =
     (\<lparr>status = 201, body = GamePlayersCreatedResponse 1 ''game_player_created'' True\<rparr>,
      initDB\<lparr>game_players := [\<lparr>game_id = 1, player_id = 1, score = SqlInteger 0\<rparr>]\<rparr>)"
  using attach_fresh by (simp add: initDB_def)

text \<open>
  The same holds in every state the server can reach: a pair that is not yet attached is
  attached whether or not its game and its player exist. On a connection that did enforce
  the foreign keys, the request would be refused and the store left as it was.
\<close>

lemma attach_unenforced_foreign_keys:
  assumes "reachable d" and "\<not> attached d g p"
  shows "AttachPlayer d g p =
       (\<lparr>status = 201,
         body = GamePlayersCreatedResponse (int (length (game_players d)) + 1)
                  ''game_player_created'' True\<rparr>,
        d\<lparr>game_players := game_players d @
             [\<lparr>game_id = g, player_id = p, score = SqlInteger 0\<rparr>]\<rparr>)"
  using reachable_foreign_keys_off [OF assms(1)] assms(2)
  by (auto simp: AttachPlayer_def handle_games_players_add_def exec_insert_game_player_def
      attached_def list_ex_iff)

lemma attach_enforced_foreign_keys:
  "foreign_keys d \<Longrightarrow> g \<notin> set (map fst (games d)) \<or> p \<notin> set (map fst (players d)) \<Longrightarrow>
     AttachPlayer d g p = (respondWithError 500, d)"
  by (auto simp: AttachPlayer_def handle_games_players_add_def exec_insert_game_player_def)

lemma second_attach_fails:
  assumes "AttachPlayer d g p = (resp, d1)" and "status resp = 201"
  shows "AttachPlayer d1 g p = (respondWithError 500, d1)"
proof -
  from assms have d1: "d1 = d\<lparr>game_players := game_players d @
                [\<lparr>game_id = g, player_id = p, score = SqlInteger 0\<rparr>]\<rparr>"
    by (auto simp: AttachPlayer_def handle_games_players_add_def exec_insert_game_player_def
        respondWithError_def split: if_splits)
  from d1 have "\<exists>row \<in> set (game_players d1). player_id row = p \<and> game_id row = g"
    by simp
  then have "exec_insert_game_player d1 p g = Inl ConstraintPrimaryKey"
    by (simp add: exec_insert_game_player_def)
  then show ?thesis by (simp add: AttachPlayer_def handle_games_players_add_def)
qed

text \<open>
  Claim C3: in every reachable state of the store there is at most one row per pair of
  player and game; and when an AttachPlayer has succeeded, the same AttachPlayer sent
  again fails (with the generic 500 answer) and leaves the store as it is, so it inserts
  no row.
\<close>

theorem one_row_per_pair:
  assumes "reachable d"
  shows "unique_pairs d \<and>
         (\<forall>g p resp d1. AttachPlayer d g p = (resp, d1) \<and> status resp = 201 \<longrightarrow>
            AttachPlayer d1 g p = (respondWithError 500, d1))"
  using reachable_unique_pairs [OF assms] second_attach_fails by blast

text \<open>Claim C3 at the fresh database: attaching player 1 to game 1 twice.\<close>

theorem one_row_per_pair_witness:
  "reachable initDB \<and> unique_pairs initDB \<and>
   AttachPlayer initDB 1 1 =
     (\<lparr>status = 201, body = GamePlayersCreatedResponse 1 ''game_player_created'' True\<rparr>,
      initDB\<lparr>game_players := [\<lparr>game_id = 1, player_id = 1, score = SqlInteger 0\<rparr>]\<rparr>) \<and>
   AttachPlayer (initDB\<lparr>game_players := [\<lparr>game_id = 1, player_id = 1, score = SqlInteger 0\<rparr>]\<rparr>) 1 1 =
     (respondWithError 500,
      initDB\<lparr>game_players := [\<lparr>game_id = 1, player_id = 1, score = SqlInteger 0\<rparr>]\<rparr>)"
proof -
  note th = one_row_per_pair [OF reach_init]
  from th have u: "unique_pairs initDB" by simp
  have "AttachPlayer (initDB\<lparr>game_players := [\<lparr>game_id = 1, player_id = 1, score = SqlInteger 0\<rparr>]\<rparr>) 1 1 =
     (respondWithError 500,
      initDB\<lparr>game_players := [\<lparr>game_id = 1, player_id = 1, score = SqlInteger 0\<rparr>]\<rparr>)"
    by (rule th [THEN conjunct2, rule_format, OF conjI, OF attach_fresh]) simp
  with attach_fresh u reach_init show ?thesis by simp
qed

subsection \<open>Applying score deltas\<close>

text \<open>
  Claim C2, as the code has it: for a pair whose stored score is 0 and a sequence of
  deltas whose running totals all stay within the signed 64-bit range, the score after
  applying the deltas one by one is their sum; and every reordering of the sequence whose
  running totals stay within that range too ends with the same score.
\<close>

theorem deltas_sum_within_int64:
  assumes "stored_score d g p = Some (SqlInteger 0)" and "totals_in_range 0 ds"
  shows "stored_score (apply_deltas d g p ds) g p = Some (SqlInteger (sum_list ds)) \<and>
         (\<forall>ds'. mset ds' = mset ds \<and> totals_in_range 0 ds' \<longrightarrow>
            stored_score (apply_deltas d g p ds') g p = stored_score (apply_deltas d g p ds) g p)"
proof -
  have a: "stored_score (apply_deltas d g p ds) g p = Some (SqlInteger (sum_list ds))"
    using stored_score_apply_deltas [OF assms] by simp
  have "stored_score (apply_deltas d g p ds') g p = stored_score (apply_deltas d g p ds) g p"
    if "mset ds' = mset ds" and "totals_in_range 0 ds'" for ds'
  proof -
    have "stored_score (apply_deltas d g p ds') g p = Some (SqlInteger (sum_list ds'))"
      using stored_score_apply_deltas [OF assms(1) that(2)] by simp
    then show ?thesis using a sum_list_mset_eq [OF that(1)] by simp
  qed
  with a show ?thesis by blast
qed

text \<open>Claim C2 at the deltas 120, 30, -50 and their reordering -50, 120, 30.\<close>

theorem deltas_sum_within_int64_witness:
  "stored_score (snd (AttachPlayer initDB 1 1)) 1 1 = Some (SqlInteger 0) \<and>
   totals_in_range 0 [120, 30, -50] \<and>
   stored_score (apply_deltas (snd (AttachPlayer initDB 1 1)) 1 1 [120, 30, -50]) 1 1
     = Some (SqlInteger 100) \<and>
   mset [-50, 120, 30] = mset [120, 30, -50 :: int] \<and>
   totals_in_range 0 [-50, 120, 30] \<and>
   stored_score (apply_deltas (snd (AttachPlayer initDB 1 1)) 1 1 [-50, 120, 30]) 1 1
     = Some (SqlInteger 100)"
proof -
  have t1: "totals_in_range 0 [120, 30, -50]" by (simp add: int64_def)
  have t2: "totals_in_range 0 [-50, 120, 30]" by (simp add: int64_def)
  have m: "mset [-50, 120, 30] = mset [120, 30, -50 :: int]" by simp
  note th = deltas_sum_within_int64 [OF attach_fresh_score t1]
  from th have a: "stored_score (apply_deltas (snd (AttachPlayer initDB 1 1)) 1 1 [120, 30, -50]) 1 1
     = Some (SqlInteger 100)" by simp
  from th m t2 have
    "stored_score (apply_deltas (snd (AttachPlayer initDB 1 1)) 1 1 [-50, 120, 30]) 1 1
       = stored_score (apply_deltas (snd (AttachPlayer initDB 1 1)) 1 1 [120, 30, -50]) 1 1"
    by blast
  with a have b: "stored_score (apply_deltas (snd (AttachPlayer initDB 1 1)) 1 1 [-50, 120, 30]) 1 1
       = Some (SqlInteger 100)" by simp
  from attach_fresh_score t1 a m t2 b show ?thesis by blast
qed

text \<open>
  Claim C2 as it is stated, for every sequence of deltas, fails: after the deltas
  9223372036854775807, 1, -1 the stored score is not their sum 9223372036854775807 (the
  second delta takes the cell out of the integer range), while the reordering
  -1, 9223372036854775807, 1 of the same deltas does end with that sum.
\<close>

theorem deltas_sum_overflow_counterexample:
  "stored_score (apply_deltas (snd (AttachPlayer initDB 1 1)) 1 1 [9223372036854775807, 1, -1]) 1 1
     \<noteq> Some (SqlInteger (sum_list [9223372036854775807, 1, -1])) \<and>
   stored_score (apply_deltas (snd (AttachPlayer initDB 1 1)) 1 1 [9223372036854775807, 1, -1]) 1 1
     \<noteq> stored_score (apply_deltas (snd (AttachPlayer initDB 1 1)) 1 1 [-1, 9223372036854775807, 1]) 1 1"
  by (simp add: snd_ApplyScoreDelta attach_fresh_state stored_score_def
      exec_update_score_def int64_def)

text \<open>
  Claim C4: for a pair that is not attached, ApplyScoreDelta fails and the store is
  exactly as before. The failure is the read after the UPDATE finding no row
  (\<^verbatim>\<open>sql.ErrNoRows\<close>); the client sees the generic 500 \<open>internal_server_error\<close>.
\<close>

theorem delta_on_unattached_pair_dropped:
  "\<not> attached d g p \<Longrightarrow>
     ApplyScoreDelta d g p delta = (respondWithError 500, d) \<and>
     query_row_score (exec_update_score d delta g p) g p = Inl ErrNoRows"
  by (simp add: ApplyScoreDelta_def handle_games_update_score_def update_no_match query_no_match)

text \<open>Claim C4 at the fresh database and the delta 120.\<close>

theorem delta_on_unattached_pair_dropped_witness:
  "\<not> attached initDB 1 1 \<and>
   ApplyScoreDelta initDB 1 1 120 = (respondWithError 500, initDB) \<and>
   query_row_score (exec_update_score initDB 120 1 1) 1 1 = Inl ErrNoRows"
proof -
  have h: "\<not> attached initDB 1 1" by (simp add: attached_def initDB_def)
  show ?thesis using h delta_on_unattached_pair_dropped [OF h, of 120] by simp
qed

text \<open>
  Claim C5, as the code has it: for an attached pair with the integer score \<open>s\<close>, an
  ApplyScoreDelta that succeeds answers \<open>new_score = s + delta\<close> and stores that score;
  and a ListScores of the game on the state it leaves, when none of the game's scores has
  left the integer range, succeeds and lists the pair with the score \<open>s + delta\<close> (and,
  the primary key holding, with no other score).
\<close>

theorem score_delta_returned_and_listed:
  assumes "stored_score d g p = Some (SqlInteger s)"
    and "ApplyScoreDelta d g p delta = (resp, d')"
    and "status resp = 201"
  shows "resp = \<lparr>status = 201, body = GameUpdatedResponse (s + delta) ''game_updated'' True\<rparr> \<and>
         stored_score d' g p = Some (SqlInteger (s + delta)) \<and>
         (\<forall>num ident. num ident = Some g \<and> integer_scores (query_game_players num d' ident) \<longrightarrow>
            (\<exists>gps. ListScores num d' ident = (\<lparr>status = 201, body = GameResponse gps\<rparr>, d') \<and>
               \<lparr>PlayerId = p, GameId = g, Score = s + delta\<rparr> \<in> set gps \<and>
               (unique_pairs d \<longrightarrow> (\<forall>e \<in> set gps. PlayerId e = p \<longrightarrow> Score e = s + delta))))"
proof -
  note ok = ApplyScoreDelta_success [OF assms]
  from stored_score_row [OF ok(2)] obtain r0 where
    r0: "r0 \<in> set (game_players d')" "game_id r0 = g" "player_id r0 = p"
        "score r0 = SqlInteger (s + delta)"
    by blast
  have listed: "\<exists>gps. ListScores num d' ident = (\<lparr>status = 201, body = GameResponse gps\<rparr>, d') \<and>
               \<lparr>PlayerId = p, GameId = g, Score = s + delta\<rparr> \<in> set gps \<and>
               (unique_pairs d \<longrightarrow> (\<forall>e \<in> set gps. PlayerId e = p \<longrightarrow> Score e = s + delta))"
    if n: "num ident = Some g" and i: "integer_scores (query_game_players num d' ident)"
    for num ident
  proof -
    let ?rows = "query_game_players num d' ident"
    from ListScores_integer [OF i] obtain gps where
      l: "ListScores num d' ident = (\<lparr>status = 201, body = GameResponse gps\<rparr>, d')" and
      m: "map (\<lambda>e. (GameId e, PlayerId e, SqlInteger (Score e))) gps =
            map (\<lambda>row. (game_id row, player_id row, score row)) ?rows"
      by blast
    have sets: "(\<lambda>e. (GameId e, PlayerId e, SqlInteger (Score e))) ` set gps =
                (\<lambda>row. (game_id row, player_id row, score row)) ` set ?rows"
      using arg_cong [OF m, of set] by simp
    have "r0 \<in> set ?rows" using r0 n by (simp add: query_game_players_def)
    then have "(g, p, SqlInteger (s + delta)) \<in>
        (\<lambda>e. (GameId e, PlayerId e, SqlInteger (Score e))) ` set gps"
      using r0 sets by force
    then obtain e0 where e0: "e0 \<in> set gps" "GameId e0 = g" "PlayerId e0 = p"
        "Score e0 = s + delta"
      by auto
    have "e0 = \<lparr>PlayerId = p, GameId = g, Score = s + delta\<rparr>"
      using e0(2-4) by (cases e0) simp
    with e0(1) have inl: "\<lparr>PlayerId = p, GameId = g, Score = s + delta\<rparr> \<in> set gps" by simp
    have uniq: "Score e = s + delta"
      if u: "unique_pairs d" and e: "e \<in> set gps" "PlayerId e = p" for e
    proof -
      from e(1) have "(GameId e, PlayerId e, SqlInteger (Score e)) \<in>
          (\<lambda>row. (game_id row, player_id row, score row)) ` set ?rows"
        using sets by blast
      then obtain row where row: "row \<in> set (game_players d')" "num ident = Some (game_id row)"
          "game_id row = GameId e" "player_id row = PlayerId e" "score row = SqlInteger (Score e)"
        by (auto simp: query_game_players_def)
      have u': "unique_pairs d'" using u by (simp add: ok(3) unique_pairs_def pair_keys_update)
      have "game_id row = game_id r0" using row(2) n r0(2) by simp
      moreover have "player_id row = player_id r0" using row(4) e(2) r0(3) by simp
      ultimately have "row = r0" using unique_pairs_same_row [OF u' row(1) r0(1)] by simp
      then show ?thesis using row(5) r0(4) by simp
    qed
    from l inl uniq show ?thesis by blast
  qed
  from ok(1,2) listed show ?thesis by blast
qed

text \<open>
  Claim C5 at the fresh database with player 1 attached to game 1 and the delta 120.
\<close>

theorem score_delta_returned_and_listed_witness:
  "stored_score (snd (AttachPlayer initDB 1 1)) 1 1 = Some (SqlInteger 0) \<and>
   fst (ApplyScoreDelta (snd (AttachPlayer initDB 1 1)) 1 1 120) =
     \<lparr>status = 201, body = GameUpdatedResponse 120 ''game_updated'' True\<rparr> \<and>
   stored_score (snd (ApplyScoreDelta (snd (AttachPlayer initDB 1 1)) 1 1 120)) 1 1 =
     Some (SqlInteger 120) \<and>
   num_one ''1'' = Some 1 \<and>
   integer_scores
     (query_game_players num_one (snd (ApplyScoreDelta (snd (AttachPlayer initDB 1 1)) 1 1 120)) ''1'') \<and>
   unique_pairs (snd (AttachPlayer initDB 1 1)) \<and>
   (\<exists>gps. ListScores num_one (snd (ApplyScoreDelta (snd (AttachPlayer initDB 1 1)) 1 1 120)) ''1'' =
            (\<lparr>status = 201, body = GameResponse gps\<rparr>,
             snd (ApplyScoreDelta (snd (AttachPlayer initDB 1 1)) 1 1 120)) \<and>
          \<lparr>PlayerId = 1, GameId = 1, Score = 120\<rparr> \<in> set gps \<and>
          list_all (\<lambda>e. PlayerId e \<noteq> 1 \<or> Score e = 120) gps) \<and>
   fst (ListScores num_one (snd (ApplyScoreDelta (snd (AttachPlayer initDB 1 1)) 1 1 120)) ''1'') =
     \<lparr>status = 201, body = GameResponse [\<lparr>PlayerId = 1, GameId = 1, Score = 120\<rparr>]\<rparr>"
proof -
  let ?d = "snd (AttachPlayer initDB 1 1)"
  let ?resp = "fst (ApplyScoreDelta ?d 1 1 120)"
  let ?d' = "snd (ApplyScoreDelta ?d 1 1 120)"
  have d': "?d' = \<lparr>foreign_keys = False, players = [], games = [],
      game_players = [\<lparr>game_id = 1, player_id = 1, score = SqlInteger 120\<rparr>]\<rparr>"
    by (simp add: snd_ApplyScoreDelta attach_fresh_state exec_update_score_def int64_def)
  have st: "status ?resp = 201"
    by (simp add: ApplyScoreDelta_def handle_games_update_score_def attach_fresh_state
        exec_update_score_def query_row_score_def int64_def)
  have pr: "ApplyScoreDelta ?d 1 1 120 = (?resp, ?d')" by simp
  have n: "num_one ''1'' = Some 1" by (simp add: num_one_def)
  have i: "integer_scores (query_game_players num_one ?d' ''1'')"
    by (simp add: d' query_game_players_def num_one_def integer_scores_def)
  have u: "unique_pairs ?d"
    by (simp add: attach_fresh_state unique_pairs_def pair_key_def)
  note th = score_delta_returned_and_listed [OF attach_fresh_score pr st]
  from th have a: "?resp = \<lparr>status = 201, body = GameUpdatedResponse 120 ''game_updated'' True\<rparr>"
    and b: "stored_score ?d' 1 1 = Some (SqlInteger 120)"
    by simp_all
  from th n i have "\<exists>gps. ListScores num_one ?d' ''1'' = (\<lparr>status = 201, body = GameResponse gps\<rparr>, ?d') \<and>
      \<lparr>PlayerId = 1, GameId = 1, Score = 0 + 120\<rparr> \<in> set gps \<and>
      (unique_pairs ?d \<longrightarrow> (\<forall>e \<in> set gps. PlayerId e = 1 \<longrightarrow> Score e = 0 + 120))"
    by blast
  with u have c: "\<exists>gps. ListScores num_one ?d' ''1'' = (\<lparr>status = 201, body = GameResponse gps\<rparr>, ?d') \<and>
      \<lparr>PlayerId = 1, GameId = 1, Score = 120\<rparr> \<in> set gps \<and>
      list_all (\<lambda>e. PlayerId e \<noteq> 1 \<or> Score e = 120) gps"
    by (auto simp: list_all_iff)
  have l: "fst (ListScores num_one ?d' ''1'') =
     \<lparr>status = 201, body = GameResponse [\<lparr>PlayerId = 1, GameId = 1, Score = 120\<rparr>]\<rparr>"
    by (simp add: d' ListScores_def handle_games_def query_game_players_def num_one_def)
  from a b n i u c l attach_fresh_score show ?thesis by blast
qed

text \<open>
  Claim C5 as it is stated, for every ListScores that follows, fails. In the state
  \<open>overflowed\<close> the score of player 2 in game 1 has left the integer range. There the
  delta 5 for player 1 succeeds with \<open>new_score = 5\<close>, and the ListScores of game 1 that
  follows reports no score at all: it answers 500.
\<close>

theorem score_delta_listed_counterexample:
  "stored_score overflowed 1 1 = Some (SqlInteger 0) \<and>
   fst (ApplyScoreDelta overflowed 1 1 5) =
     \<lparr>status = 201, body = GameUpdatedResponse 5 ''game_updated'' True\<rparr> \<and>
   ListScores num_one (snd (ApplyScoreDelta overflowed 1 1 5)) ''1'' =
     (respondWithError 500, snd (ApplyScoreDelta overflowed 1 1 5))"
  by (simp add: overflowed_value stored_score_def ApplyScoreDelta_def
      handle_games_update_score_def exec_update_score_def query_row_score_def int64_def
      ListScores_def handle_games_def query_game_players_def num_one_def)

subsection \<open>Listing the scores of a game\<close>

text \<open>
  Claim C6, as the code has it: for every text of the \<open>game_id\<close> parameter, when no
  score of the selected rows has left the integer range, ListScores succeeds, leaves the
  store as it is and returns, in storage order, exactly the rows whose \<open>game_id\<close> is the
  number the text stands for, each with its player and its score; in particular it
  returns the empty list, not an error, when no row is selected (the game has no players
  or does not exist). When a selected score has left the integer range, it answers 500.
\<close>

theorem list_scores_of_integer_rows:
  "(integer_scores (filter (\<lambda>row. num ident = Some (game_id row)) (game_players d)) \<longrightarrow>
      (\<exists>gps. ListScores num d ident = (\<lparr>status = 201, body = GameResponse gps\<rparr>, d) \<and>
         map (\<lambda>e. (GameId e, PlayerId e, SqlInteger (Score e))) gps =
           map (\<lambda>row. (game_id row, player_id row, score row))
             (filter (\<lambda>row. num ident = Some (game_id row)) (game_players d)))) \<and>
   (filter (\<lambda>row. num ident = Some (game_id row)) (game_players d) = [] \<longrightarrow>
      ListScores num d ident = (\<lparr>status = 201, body = GameResponse []\<rparr>, d)) \<and>
   (\<not> integer_scores (filter (\<lambda>row. num ident = Some (game_id row)) (game_players d)) \<longrightarrow>
      ListScores num d ident = (respondWithError 500, d))"
proof (intro conjI impI)
  assume "integer_scores (filter (\<lambda>row. num ident = Some (game_id row)) (game_players d))"
  then have "integer_scores (query_game_players num d ident)"
    by (simp add: query_game_players_def)
  from ListScores_integer [OF this]
  show "\<exists>gps. ListScores num d ident = (\<lparr>status = 201, body = GameResponse gps\<rparr>, d) \<and>
         map (\<lambda>e. (GameId e, PlayerId e, SqlInteger (Score e))) gps =
           map (\<lambda>row. (game_id row, player_id row, score row))
             (filter (\<lambda>row. num ident = Some (game_id row)) (game_players d))"
    by (simp add: query_game_players_def)
next
  assume "filter (\<lambda>row. num ident = Some (game_id row)) (game_players d) = []"
  then show "ListScores num d ident = (\<lparr>status = 201, body = GameResponse []\<rparr>, d)"
    by (simp add: ListScores_def handle_games_def query_game_players_def)
next
  assume "\<not> integer_scores (filter (\<lambda>row. num ident = Some (game_id row)) (game_players d))"
  then have "\<not> integer_scores (query_game_players num d ident)"
    by (simp add: query_game_players_def)
  then show "ListScores num d ident = (respondWithError 500, d)"
    by (rule ListScores_real)
qed

text \<open>
  Claim C6 at the state \<open>scenario\<close>: game 1 lists its two players with the scores 150
  and 0, and game 7, which does not exist, lists nothing; and at the state
  \<open>overflowed\<close>, where a selected score is no integer and the answer is 500.
\<close>

theorem list_scores_of_integer_rows_witness:
  "integer_scores (filter (\<lambda>row. num_one ''1'' = Some (game_id row)) (game_players scenario)) \<and>
   ListScores num_one scenario ''1'' =
     (\<lparr>status = 201,
       body = GameResponse [\<lparr>PlayerId = 1, GameId = 1, Score = 150\<rparr>,
                            \<lparr>PlayerId = 2, GameId = 1, Score = 0\<rparr>]\<rparr>, scenario) \<and>
   filter (\<lambda>row. num_one ''7'' = Some (game_id row)) (game_players scenario) = [] \<and>
   ListScores num_one scenario ''7'' = (\<lparr>status = 201, body = GameResponse []\<rparr>, scenario) \<and>
   \<not> integer_scores (filter (\<lambda>row. num_one ''1'' = Some (game_id row)) (game_players overflowed)) \<and>
   fst (ListScores num_one overflowed ''1'') = respondWithError 500"
proof -
  have i: "integer_scores
      (filter (\<lambda>row. num_one ''1'' = Some (game_id row)) (game_players scenario))"
    by (simp add: scenario_value num_one_def integer_scores_def)
  have e: "filter (\<lambda>row. num_one ''7'' = Some (game_id row)) (game_players scenario) = []"
    by (simp add: scenario_value num_one_def)
  have r: "\<not> integer_scores
      (filter (\<lambda>row. num_one ''1'' = Some (game_id row)) (game_players overflowed))"
    by (simp add: overflowed_value num_one_def integer_scores_def)
  have "ListScores num_one scenario ''7'' = (\<lparr>status = 201, body = GameResponse []\<rparr>, scenario)"
    using list_scores_of_integer_rows [of num_one "''7''" scenario] e by blast
  moreover have "fst (ListScores num_one overflowed ''1'') = respondWithError 500"
    using list_scores_of_integer_rows [of num_one "''1''" overflowed] r by simp
  moreover have "ListScores num_one scenario ''1'' =
     (\<lparr>status = 201,
       body = GameResponse [\<lparr>PlayerId = 1, GameId = 1, Score = 150\<rparr>,
                            \<lparr>PlayerId = 2, GameId = 1, Score = 0\<rparr>]\<rparr>, scenario)"
    by (simp add: scenario_value ListScores_def handle_games_def query_game_players_def num_one_def)
  ultimately show ?thesis using i e r by simp
qed

text \<open>
  Claim C6 as it is stated, for every game, fails: the state \<open>overflowed\<close> is reached by
  four requests from the fresh database, and there the ListScores of game 1 does not
  succeed.
\<close>

theorem list_scores_overflow_counterexample:
  "reachable overflowed \<and>
   ListScores num_one overflowed ''1'' = (respondWithError 500, overflowed)"
proof -
  have "ListScores num_one overflowed ''1'' = (respondWithError 500, overflowed)"
    by (simp add: overflowed_value ListScores_def handle_games_def query_game_players_def
        num_one_def)
  with reachable_overflowed show ?thesis by simp
qed

subsection \<open>Registering a player and creating a game\<close>

text \<open>
  Claim C7, as the code has it: RegisterPlayer with the empty name fails with the
  validation error and inserts no player; with every other name, a name of white space
  only included, it inserts a new player with that name and returns the player's
  identifier, which no earlier player has.
\<close>

theorem register_player_empty_name_only:
  "(name = '''' \<longrightarrow>
      RegisterPlayer d name =
        (\<lparr>status = 400, body = Response ''validation_error: name can't be blank'' False\<rparr>, d)) \<and>
   (name \<noteq> '''' \<longrightarrow>
      RegisterPlayer d name =
        (\<lparr>status = 201,
          body = UserCreatedResponse (next_rowid (map fst (players d))) ''user_created'' True\<rparr>,
         d\<lparr>players := players d @ [(next_rowid (map fst (players d)), name)]\<rparr>) \<and>
      next_rowid (map fst (players d)) \<notin> set (map fst (players d)))"
  using next_rowid_fresh [of "map fst (players d)"]
  by (simp add: RegisterPlayer_def handle_players_add_def exec_insert_player_def Let_def)

text \<open>Claim C7 at the fresh database, with the empty name and with the name Alice.\<close>

theorem register_player_empty_name_only_witness:
  "RegisterPlayer initDB '''' =
     (\<lparr>status = 400, body = Response ''validation_error: name can't be blank'' False\<rparr>, initDB) \<and>
   RegisterPlayer initDB ''Alice'' =
     (\<lparr>status = 201, body = UserCreatedResponse 1 ''user_created'' True\<rparr>,
      initDB\<lparr>players := [(1, ''Alice'')]\<rparr>)"
  using register_player_empty_name_only [of "''''" initDB]
        register_player_empty_name_only [of "''Alice''" initDB]
  by (simp add: initDB_def next_rowid_def)

text \<open>
  Claim C7 as it is stated, for every blank name, fails: the name made of one space is
  blank, and RegisterPlayer inserts a player with that name.
\<close>

theorem register_player_blank_name_counterexample:
  "blank '' '' \<and>
   RegisterPlayer initDB '' '' =
     (\<lparr>status = 201, body = UserCreatedResponse 1 ''user_created'' True\<rparr>,
      initDB\<lparr>players := [(1, '' '')]\<rparr>)"
  by (simp add: blank_def RegisterPlayer_def handle_players_add_def exec_insert_player_def
      initDB_def next_rowid_def)

text \<open>
  Claim C8: for every integer ceiling, zero and negative ones included, CreateGame
  succeeds: it appends a game with exactly that ceiling and returns the new game's
  identifier, which no earlier game has.
\<close>

theorem create_game_any_ceiling:
  "CreateGame d scoreCeiling =
     (\<lparr>status = 201,
       body = GameCreatedResponse (next_rowid (map fst (games d))) ''game_created'' True\<rparr>,
      d\<lparr>games := games d @ [(next_rowid (map fst (games d)), scoreCeiling)]\<rparr>) \<and>
   next_rowid (map fst (games d)) \<notin> set (map fst (games d))"
  using next_rowid_fresh [of "map fst (games d)"]
  by (simp add: CreateGame_def handle_games_new_def exec_insert_game_def Let_def)

text \<open>Claim C8 at the fresh database, with the ceilings -5 and 0.\<close>

theorem create_game_any_ceiling_witness:
  "CreateGame initDB (- 5) =
     (\<lparr>status = 201, body = GameCreatedResponse 1 ''game_created'' True\<rparr>,
      initDB\<lparr>games := [(1, - 5)]\<rparr>) \<and>
   CreateGame initDB 0 =
     (\<lparr>status = 201, body = GameCreatedResponse 1 ''game_created'' True\<rparr>,
      initDB\<lparr>games := [(1, 0)]\<rparr>)"
  using create_game_any_ceiling [of initDB "- 5"] create_game_any_ceiling [of initDB 0]
  by (simp add: initDB_def next_rowid_def)

subsection \<open>The health endpoint and rejected requests\<close>

text \<open>
  Claim C9, as the server has it: a request to the route \<open>/\<close> whose method is not
  OPTIONS is answered, whatever its method and body, with 200 and the message
  \<open>all good\<close>; an OPTIONS request is answered by the CORS middleware with 200 and no
  body, and never reaches the route.
\<close>

theorem health_endpoint_unless_options:
  "(req_method r \<noteq> ''OPTIONS'' \<longrightarrow>
      served handle_root d r = (\<lparr>status = 200, body = Response ''all good'' True\<rparr>, d)) \<and>
   (req_method r = ''OPTIONS'' \<longrightarrow>
      served handle_root d r = (\<lparr>status = 200, body = NoBody\<rparr>, d))"
  by (simp add: served_eq handle_root_def)

text \<open>Claim C9 at a DELETE and at an OPTIONS request.\<close>

theorem health_endpoint_unless_options_witness:
  "served handle_root initDB \<lparr>req_method = ''DELETE'', req_data = ''{}''\<rparr>
     = (\<lparr>status = 200, body = Response ''all good'' True\<rparr>, initDB) \<and>
   served handle_root initDB \<lparr>req_method = ''OPTIONS'', req_data = ''{}''\<rparr>
     = (\<lparr>status = 200, body = NoBody\<rparr>, initDB)"
  using health_endpoint_unless_options [of "\<lparr>req_method = ''DELETE'', req_data = ''{}''\<rparr>" initDB]
        health_endpoint_unless_options [of "\<lparr>req_method = ''OPTIONS'', req_data = ''{}''\<rparr>" initDB]
  by simp

text \<open>
  Claim C9 as it is stated, regardless of the method, fails: the answer to an OPTIONS
  request is not the \<open>all good\<close> message.
\<close>

theorem health_endpoint_options_counterexample:
  "fst (served handle_root initDB \<lparr>req_method = ''OPTIONS'', req_data = ''''\<rparr>)
     \<noteq> \<lparr>status = 200, body = Response ''all good'' True\<rparr>"
  by (simp add: served_eq)

text \<open>
  Claim C10: a request that a handler rejects before it calls the store (a wrong method,
  a body the decoder refuses, or the empty player name) is answered with the failure
  response of its kind, and the store is exactly the store before the call. This holds
  for each of the five routes; the route \<open>/games\<close> decodes no body.
\<close>

theorem rejected_request_leaves_store:
  "(req_method r1 \<noteq> ''POST'' \<longrightarrow> handle_games_new d r1 = (method_not_allowed, d)) \<and>
   (req_method r1 = ''POST'' \<and> req_data r1 = None \<longrightarrow> handle_games_new d r1 = (invalid_json, d)) \<and>
   (req_method r2 \<noteq> ''GET'' \<longrightarrow> handle_games num d r2 = (method_not_allowed, d)) \<and>
   (req_method r3 \<noteq> ''PUT'' \<longrightarrow> handle_games_update_score d r3 = (method_not_allowed, d)) \<and>
   (req_method r3 = ''PUT'' \<and> req_data r3 = None \<longrightarrow>
      handle_games_update_score d r3 = (invalid_json, d)) \<and>
   (req_method r4 \<noteq> ''POST'' \<longrightarrow> handle_games_players_add d r4 = (method_not_allowed, d)) \<and>
   (req_method r4 = ''POST'' \<and> req_data r4 = None \<longrightarrow>
      handle_games_players_add d r4 = (invalid_json, d)) \<and>
   (req_method r5 \<noteq> ''POST'' \<longrightarrow> handle_players_add d r5 = (method_not_allowed, d)) \<and>
   (req_method r5 = ''POST'' \<and> req_data r5 = None \<longrightarrow>
      handle_players_add d r5 = (invalid_json, d)) \<and>
   (req_method r5 = ''POST'' \<and> req_data r5 = Some '''' \<longrightarrow>
      handle_players_add d r5 =
        (\<lparr>status = 400, body = Response ''validation_error: name can't be blank'' False\<rparr>, d))"
  by (simp add: handle_games_new_def handle_games_def handle_games_update_score_def
      handle_games_players_add_def handle_players_add_def)

text \<open>Claim C10 at the state \<open>scenario\<close>, one rejected request of each kind.\<close>

theorem rejected_request_leaves_store_witness:
  "handle_games_new scenario \<lparr>req_method = ''GET'', req_data = Some 3000\<rparr>
     = (method_not_allowed, scenario) \<and>
   handle_games_new scenario \<lparr>req_method = ''POST'', req_data = None\<rparr>
     = (invalid_json, scenario) \<and>
   handle_games num_one scenario \<lparr>req_method = ''POST'', req_data = ''1''\<rparr>
     = (method_not_allowed, scenario) \<and>
   handle_games_update_score scenario \<lparr>req_method = ''POST'', req_data = None\<rparr>
     = (method_not_allowed, scenario) \<and>
   handle_games_update_score scenario \<lparr>req_method = ''PUT'', req_data = None\<rparr>
     = (invalid_json, scenario) \<and>
   handle_games_players_add scenario \<lparr>req_method = ''PUT'', req_data = None\<rparr>
     = (method_not_allowed, scenario) \<and>
   handle_games_players_add scenario \<lparr>req_method = ''POST'', req_data = None\<rparr>
     = (invalid_json, scenario) \<and>
   handle_players_add scenario \<lparr>req_method = ''GET'', req_data = Some ''Alice''\<rparr>
     = (method_not_allowed, scenario) \<and>
   handle_players_add scenario \<lparr>req_method = ''POST'', req_data = None\<rparr>
     = (invalid_json, scenario) \<and>
   handle_players_add scenario \<lparr>req_method = ''POST'', req_data = Some ''''\<rparr> =
     (\<lparr>status = 400, body = Response ''validation_error: name can't be blank'' False\<rparr>, scenario)"
proof -
  note a = rejected_request_leaves_store
    [of "\<lparr>req_method = ''GET'', req_data = Some 3000\<rparr>" scenario
        "\<lparr>req_method = ''POST'', req_data = ''1''\<rparr>" num_one
        "\<lparr>req_method = ''POST'', req_data = None\<rparr>"
        "\<lparr>req_method = ''PUT'', req_data = None\<rparr>"
        "\<lparr>req_method = ''GET'', req_data = Some ''Alice''\<rparr>"]
  note b = rejected_request_leaves_store
    [of "\<lparr>req_method = ''POST'', req_data = None\<rparr>" scenario
        "\<lparr>req_method = ''POST'', req_data = ''1''\<rparr>" num_one
        "\<lparr>req_method = ''PUT'', req_data = None\<rparr>"
        "\<lparr>req_method = ''POST'', req_data = None\<rparr>"
        "\<lparr>req_method = ''POST'', req_data = None\<rparr>"]
  note c = rejected_request_leaves_store
    [of "\<lparr>req_method = ''POST'', req_data = None\<rparr>" scenario
        "\<lparr>req_method = ''POST'', req_data = ''1''\<rparr>" num_one
        "\<lparr>req_method = ''PUT'', req_data = None\<rparr>"
        "\<lparr>req_method = ''POST'', req_data = None\<rparr>"
        "\<lparr>req_method = ''POST'', req_data = Some ''''\<rparr>"]
  from a b c show ?thesis by simp
qed

end
